theory Spec2Isabelle
  imports Complex_Main
begin

section \<open>Tracer diffusion flux of the Lecoanet Kelvin-Helmholtz setup\<close>

text \<open>
  A shallow embedding of \<^verbatim>\<open>tracer_rhs_flux.c\<close> under the configuration of
  \<^verbatim>\<open>definitions.h\<close>. The C type \<^verbatim>\<open>double\<close> is idealised as \<^typ>\<open>real\<close>: every
  arithmetic operation of the source is the exact operation on real numbers, so rounding,
  overflow to infinity and NaN are outside the model; the diffusivity and the flux
  statement are modelled a second time with rounded operations, for the one property that
  rounding decides. The C type \<^verbatim>\<open>int\<close> of the loop
  counters and array indices is \<^typ>\<open>int\<close>; indices are positions in arrays of at most
  \<^verbatim>\<open>NMAX_POINT\<close> cells, far from the range where 32-bit arithmetic wraps. An array reached
  through a pointer is a total function of its index: C has no bounds check, and the
  source documents none.
\<close>

subsection \<open>Configuration: \<^verbatim>\<open>definitions.h\<close>\<close>

definition DIMENSIONS :: nat where
  "DIMENSIONS = 2"

definition NTRACER :: int where
  "NTRACER = 1"

text \<open>Labels of the user-defined parameters, indices into \<^verbatim>\<open>g_inputParam\<close>.\<close>

definition REYNOLDS :: int where
  "REYNOLDS = 1"

definition U_FLOW :: int where
  "U_FLOW = 7"

definition RHO0 :: int where
  "RHO0 = 8"

definition LENGTH :: int where
  "LENGTH = 10"

subsection \<open>Constants and macros of the host framework\<close>

text \<open>
  The header \<^verbatim>\<open>pluto.h\<close> belongs to the host framework. The source uses its direction
  labels, the index of the density among the flow variables, and two macros.
\<close>

definition IDIR :: int where
  "IDIR = 0"

definition JDIR :: int where
  "JDIR = 1"

definition KDIR :: int where
  "KDIR = 2"

definition RHO :: int where
  "RHO = 0"

text \<open>
  Modelled from the spec: the host macro \<^verbatim>\<open>DIM_EXPAND(a, b, c)\<close> is not defined in the
  repository. The spec says that only the directions enabled for the active number of
  spatial dimensions are computed and that lower-dimensional configurations omit the
  other components: the macro keeps, in order, the first \<^verbatim>\<open>DIMENSIONS\<close> of its three
  arguments. An argument is a statement, here a function on the state it assigns to.
\<close>

definition DIM_EXPAND :: "('s \<Rightarrow> 's) \<Rightarrow> ('s \<Rightarrow> 's) \<Rightarrow> ('s \<Rightarrow> 's) \<Rightarrow> 's \<Rightarrow> 's" where
  "DIM_EXPAND a b c =
     (if DIMENSIONS = 1 then a
      else if DIMENSIONS = 2 then b \<circ> a
      else c \<circ> b \<circ> a)"

subsection \<open>Data\<close>

type_synonym array1 = "int \<Rightarrow> real"
type_synonym array2 = "int \<Rightarrow> int \<Rightarrow> real"
type_synonym array3 = "int \<Rightarrow> int \<Rightarrow> int \<Rightarrow> real"
type_synonym array4 = "int \<Rightarrow> int \<Rightarrow> int \<Rightarrow> int \<Rightarrow> real"

text \<open>
  The members of the host's \<^verbatim>\<open>Grid\<close> structure that the source reads, each indexed by
  direction and then by cell: \<^verbatim>\<open>x\<close>, \<^verbatim>\<open>xr\<close>, \<^verbatim>\<open>dx\<close>, \<^verbatim>\<open>inv_dx\<close>, \<^verbatim>\<open>inv_dxi\<close>.
  The fields carry the prefix \<open>grid_\<close> because a record field is a constant of the theory.
\<close>

record Grid =
  grid_x :: array2
  grid_xr :: array2
  grid_dx :: array2
  grid_inv_dx :: array2
  grid_inv_dxi :: array2

text \<open>The member of the host's \<^verbatim>\<open>Sweep\<close> structure that the source reads: \<^verbatim>\<open>vn[i][nv]\<close>.\<close>

record Sweep =
  vn :: array2

text \<open>The global variables of the host that the source reads.\<close>

record Globals =
  g_inputParam :: array1
  g_dir :: int
  g_i :: int
  g_j :: int
  g_k :: int

text \<open>
  The memory a call of \<^verbatim>\<open>RHS_TRACER_Flux\<close> can reach: the globals, the arrays behind its
  pointer arguments, and its static pointer \<^verbatim>\<open>gradTRC\<close>, which is \<open>None\<close> while it is
  \<^verbatim>\<open>NULL\<close>. The arrays are separate fields: the host passes blocks that do not overlap.
\<close>

record Memory =
  globals :: Globals
  TracerField :: array4
  sweep :: Sweep
  grid :: Grid
  tracer_flux :: array2
  gradTRC :: "array3 option"

text \<open>The assignment \<^verbatim>\<open>A[i][c] = v\<close>.\<close>

definition assign2 :: "array2 \<Rightarrow> int \<Rightarrow> int \<Rightarrow> real \<Rightarrow> array2" where
  "assign2 A i c v = A(i := (A i)(c := v))"

subsection \<open>Unit scales: the user-defined constants of \<^verbatim>\<open>definitions.h\<close>\<close>

definition UNIT_LENGTH :: "Globals \<Rightarrow> real" where
  "UNIT_LENGTH g = g_inputParam g LENGTH"

definition UNIT_DENSITY :: "Globals \<Rightarrow> real" where
  "UNIT_DENSITY g = g_inputParam g RHO0"

definition UNIT_VELOCITY :: "Globals \<Rightarrow> real" where
  "UNIT_VELOCITY g = g_inputParam g U_FLOW"

subsection \<open>\<^verbatim>\<open>GetTracerGradient\<close>\<close>

text \<open>
  The branches of \<^verbatim>\<open>GEOMETRY\<close> other than \<^verbatim>\<open>CARTESIAN\<close> are removed by the preprocessor.
  The scalar locals are bound by \<open>let\<close>; a local that the configuration never assigns is
  never read either, because the statement reading it sits at the same position of a
  \<^verbatim>\<open>DIM_EXPAND\<close>. The function returns the array \<^verbatim>\<open>gradField\<close> it has written to.
\<close>

definition GetTracerGradient ::
  "Globals \<Rightarrow> Grid \<Rightarrow> array3 \<Rightarrow> array2 \<Rightarrow> int \<Rightarrow> int \<Rightarrow> array2" where
  "GetTracerGradient g grd Field' gradField beg end' =
    (let inv_dx = grid_inv_dx grd IDIR; inv_dxi = grid_inv_dxi grd IDIR;
         inv_dy = grid_inv_dx grd JDIR; inv_dyi = grid_inv_dxi grd JDIR;
         inv_dz = grid_inv_dx grd KDIR; inv_dzi = grid_inv_dxi grd KDIR;
         r = grid_x grd IDIR;
         rp = grid_xr grd IDIR;
         i = g_i g;
         j = g_j g;
         k = g_k g
     in
       if g_dir g = IDIR then
         (let dl2 = inv_dy j;
              dl3 = inv_dz k
          in fold (\<lambda>i gradField.
               let dl1 = inv_dxi i
               in DIM_EXPAND
                   (\<lambda>gradField. assign2 gradField i 0
                      ((Field' k j (i + 1) - Field' k j i) * dl1))
                   (\<lambda>gradField. assign2 gradField i 1
                      (0.25 * (Field' k (j + 1) i + Field' k (j + 1) (i + 1)
                             - Field' k (j - 1) i - Field' k (j - 1) (i + 1)) * dl2))
                   (\<lambda>gradField. assign2 gradField i 2
                      (0.25 * (Field' (k + 1) j i + Field' (k + 1) j (i + 1)
                             - Field' (k - 1) j i - Field' (k - 1) j (i + 1)) * dl3))
                   gradField)
               [beg..end'] gradField)
       else if g_dir g = JDIR then
         (let r_1 = 1.0 / r i;
              dl1 = inv_dx i;
              dl3 = inv_dz k
          in fold (\<lambda>j gradField.
               let dl2 = inv_dyi j
               in DIM_EXPAND
                   (\<lambda>gradField. assign2 gradField j 0
                      (0.25 * (Field' k j (i + 1) + Field' k (j + 1) (i + 1)
                             - Field' k j (i - 1) - Field' k (j + 1) (i - 1)) * dl1))
                   (\<lambda>gradField. assign2 gradField j 1
                      ((Field' k (j + 1) i - Field' k j i) * dl2))
                   (\<lambda>gradField. assign2 gradField j 2
                      (0.25 * (Field' (k + 1) j i + Field' (k + 1) (j + 1) i
                             - Field' (k - 1) j i - Field' (k - 1) (j + 1) i) * dl3))
                   gradField)
               [beg..end'] gradField)
       else if g_dir g = KDIR then
         (let dl1 = inv_dx i;
              dl2 = inv_dy j
          in fold (\<lambda>k gradField.
               let dl3 = inv_dzi k;
                   gradField = assign2 gradField k 0
                      (0.25 * (Field' k j (i + 1) + Field' (k + 1) j (i + 1)
                             - Field' k j (i - 1) - Field' (k + 1) j (i - 1)) * dl1);
                   gradField = assign2 gradField k 1
                      (0.25 * (Field' k (j + 1) i + Field' (k + 1) (j + 1) i
                             - Field' k (j - 1) i - Field' (k + 1) (j - 1) i) * dl2)
               in assign2 gradField k 2 ((Field' (k + 1) j i - Field' k j i) * dl3))
               [beg..end'] gradField)
       else gradField)"

subsection \<open>\<^verbatim>\<open>RHS_TRACER_Flux\<close>\<close>

text \<open>
  The diffusivity that the function computes before its loops, from the three input
  parameters and the two unit scales.
\<close>

definition nu_dye :: "Globals \<Rightarrow> real" where
  "nu_dye g =
    (let del_u = 2 * g_inputParam g U_FLOW;
         chi = g_inputParam g LENGTH * del_u / g_inputParam g REYNOLDS
     in chi / (UNIT_LENGTH g * UNIT_VELOCITY g))"

text \<open>
  The block that the first call binds to the static pointer comes from the host's
  allocator \<^verbatim>\<open>ARRAY_3D\<close>; its contents are the argument \<open>fresh\<close>. The buffer the loops
  work on is that block on the first call and the block of the earlier calls afterwards.
\<close>

definition gradTRC_buffer :: "array3 \<Rightarrow> Memory \<Rightarrow> array3" where
  "gradTRC_buffer fresh m = (case gradTRC m of None \<Rightarrow> fresh | Some a \<Rightarrow> a)"

text \<open>
  The loop \<^verbatim>\<open>NVAR_LOOP(nv)\<close> fills the local array \<^verbatim>\<open>vi\<close> at every flow variable, of which
  \<^verbatim>\<open>RHO\<close> is one; \<open>vi\<close> is that array as a function of \<open>nv\<close>. The function returns the memory
  after the call.
\<close>

definition RHS_TRACER_Flux :: "array3 \<Rightarrow> Memory \<Rightarrow> int \<Rightarrow> int \<Rightarrow> Memory" where
  "RHS_TRACER_Flux fresh m beg end' =
    (let vc = vn (sweep m);
         g = globals m;
         grd = grid m;
         nu = nu_dye g;
         gradTRC0 = gradTRC_buffer fresh m;
         (gradTRC1, tracer_flux1) =
           fold (\<lambda>trc (gradTRC, tracer_flux).
             let gradTRC = gradTRC(trc :=
                   GetTracerGradient g grd (TracerField m trc) (gradTRC trc) beg end')
             in (gradTRC,
                 fold (\<lambda>i tracer_flux.
                   let vi = (\<lambda>nv. (vc i nv * grid_dx grd (g_dir g) i
                                    + vc (i + 1) nv * grid_dx grd (g_dir g) (i + 1))
                                   / (grid_dx grd (g_dir g) i + grid_dx grd (g_dir g) (i + 1)));
                       Flux = vi RHO * nu * gradTRC trc i (g_dir g)
                   in assign2 tracer_flux i trc Flux)
                 [beg..end'] tracer_flux))
           [0..NTRACER - 1] (gradTRC0, tracer_flux m)
     in m\<lparr>tracer_flux := tracer_flux1, gradTRC := Some gradTRC1\<rparr>)"

subsection \<open>Double arithmetic\<close>

text \<open>
  The finite values of IEEE 754 binary64 under the default rounding, to nearest with ties
  to even. A positive real \<open>x\<close> lies in the binade \<open>2\<^sup>e \<le> x < 2\<^sup>e\<^sup>+\<^sup>1\<close>; with \<open>e\<close> no less
  than \<open>-1022\<close>, where the subnormal numbers begin, its neighbours among the doubles are
  multiples of \<open>2\<^sup>e\<^sup>-\<^sup>5\<^sup>2\<close>. A result that is not finite, an infinity or a NaN, is \<open>None\<close>.
\<close>

definition round_ties_even :: "real \<Rightarrow> int" where
  "round_ties_even y =
     (let f = \<lfloor>y\<rfloor>;
          d = y - of_int f
      in if d < 1 / 2 then f
         else if 1 / 2 < d then f + 1
         else if even f then f else f + 1)"

function binade_up :: "real \<Rightarrow> int" where
  "binade_up x = (if 2 \<le> x then binade_up (x / 2) + 1 else 0)"
  by pat_completeness auto
termination
proof (relation "measure (\<lambda>x. nat \<lfloor>x\<rfloor>)")
  show "wf (measure (\<lambda>x::real. nat \<lfloor>x\<rfloor>))"
    by simp
next
  fix x :: real
  assume "2 \<le> x"
  then have "x / 2 \<le> x - 1" and "2 \<le> \<lfloor>x\<rfloor>"
    by (simp_all add: le_floor_iff)
  then have "\<lfloor>x / 2\<rfloor> \<le> \<lfloor>x\<rfloor> - 1" and "0 < \<lfloor>x\<rfloor>"
    using floor_mono [of "x / 2" "x - 1"] by simp_all
  then show "(x / 2, x) \<in> measure (\<lambda>x. nat \<lfloor>x\<rfloor>)"
    by simp
qed

function binade_down :: "real \<Rightarrow> int" where
  "binade_down x = (if 0 < x \<and> x < 1 then binade_down (2 * x) - 1 else 0)"
  by pat_completeness auto
termination
proof (relation "measure (\<lambda>x. nat \<lceil>1 / x\<rceil>)")
  show "wf (measure (\<lambda>x::real. nat \<lceil>1 / x\<rceil>))"
    by simp
next
  fix x :: real
  assume "0 < x \<and> x < 1"
  then have pos: "0 < x" and "1 < 1 / x"
    by simp_all
  then have two: "2 \<le> \<lceil>1 / x\<rceil>"
    by (simp add: less_ceiling_iff)
  have "1 / x \<le> of_int \<lceil>1 / x\<rceil>"
    by (rule le_of_int_ceiling)
  then have "1 / (2 * x) \<le> of_int \<lceil>1 / x\<rceil> / 2"
    by simp
  also have "\<dots> \<le> of_int (\<lceil>1 / x\<rceil> - 1)"
    using two by simp
  finally have "\<lceil>1 / (2 * x)\<rceil> \<le> \<lceil>1 / x\<rceil> - 1"
    by (simp only: ceiling_le_iff)
  with two pos show "(2 * x, x) \<in> measure (\<lambda>x. nat \<lceil>1 / x\<rceil>)"
    by simp
qed

definition binade :: "real \<Rightarrow> int" where
  "binade x = (if 1 \<le> x then binade_up x else binade_down x)"

definition double_round :: "real \<Rightarrow> real option" where
  "double_round x =
     (if x = 0 then Some 0
      else
        let e = max (binade \<bar>x\<bar>) (- 1022);
            ulp = (if 52 \<le> e then 2 ^ nat (e - 52) else 1 / 2 ^ nat (52 - e));
            r = of_int (round_ties_even (\<bar>x\<bar> / ulp)) * ulp
        in if r < 2 ^ 1024 then Some (sgn x * r) else None)"

definition double_mul :: "real option \<Rightarrow> real option \<Rightarrow> real option" where
  "double_mul a b =
     (case (a, b) of (Some x, Some y) \<Rightarrow> double_round (x * y) | _ \<Rightarrow> None)"

definition double_div :: "real option \<Rightarrow> real option \<Rightarrow> real option" where
  "double_div a b =
     (case (a, b) of
        (Some x, Some y) \<Rightarrow> if y = 0 then None else double_round (x / y)
      | _ \<Rightarrow> None)"

text \<open>
  The statements of \<^verbatim>\<open>RHS_TRACER_Flux\<close> that compute the diffusivity, and the one that
  computes \<^verbatim>\<open>Flux\<close> from \<^verbatim>\<open>vi[RHO]\<close>, \<^verbatim>\<open>nu_dye\<close> and the gradient component, with every
  operation rounded as the machine rounds it. The input parameters are doubles.
\<close>

definition nu_dye_double :: "Globals \<Rightarrow> real option" where
  "nu_dye_double g =
    (let del_u = double_mul (Some 2) (Some (g_inputParam g U_FLOW));
         chi = double_div (double_mul (Some (g_inputParam g LENGTH)) del_u)
                 (Some (g_inputParam g REYNOLDS))
     in double_div chi (double_mul (Some (UNIT_LENGTH g)) (Some (UNIT_VELOCITY g))))"

definition Flux_double :: "real option \<Rightarrow> real option \<Rightarrow> real option \<Rightarrow> real option" where
  "Flux_double vi_RHO nu grad = double_mul (double_mul vi_RHO nu) grad"

section \<open>Concrete runs\<close>

text \<open>
  The end-to-end scenario of the spec: a Cartesian grid of uniform spacing \<open>0.01\<close>, two
  neighbouring cells with tracer values \<open>1\<close> and \<open>2\<close> along the first direction, uniform
  density \<open>1\<close>, \<^verbatim>\<open>REYNOLDS\<close> \<open>= 10000\<close>, \<^verbatim>\<open>U_FLOW\<close> \<open>= 1\<close> and \<^verbatim>\<open>LENGTH\<close> \<open>= 1\<close>. The flux
  array holds the sentinel \<open>-1\<close> before the call, and the static pointer is still
  \<^verbatim>\<open>NULL\<close>.
\<close>

definition scenario_grid :: Grid where
  "scenario_grid =
     \<lparr>grid_x = (\<lambda>d n. (real_of_int n + 1 / 2) / 100),
      grid_xr = (\<lambda>d n. (real_of_int n + 1) / 100),
      grid_dx = (\<lambda>d n. 1 / 100),
      grid_inv_dx = (\<lambda>d n. 100),
      grid_inv_dxi = (\<lambda>d n. 100)\<rparr>"

definition scenario_globals :: Globals where
  "scenario_globals =
     \<lparr>g_inputParam = (\<lambda>p. if p = REYNOLDS then 10000 else 1),
      g_dir = IDIR, g_i = 0, g_j = 0, g_k = 0\<rparr>"

definition scenario_field :: array3 where
  "scenario_field = (\<lambda>k j i. if i \<le> 0 then 1 else 2)"

definition scenario_sweep :: Sweep where
  "scenario_sweep = \<lparr>vn = (\<lambda>i nv. 1)\<rparr>"

definition scenario_memory :: Memory where
  "scenario_memory =
     \<lparr>globals = scenario_globals,
      TracerField = (\<lambda>trc. scenario_field),
      sweep = scenario_sweep,
      grid = scenario_grid,
      tracer_flux = (\<lambda>i trc. - 1),
      gradTRC = None\<rparr>"

text \<open>Two contents of a gradient block: all zero, and left over from other work.\<close>

definition zero_block :: array3 where
  "zero_block = (\<lambda>trc i c. 0)"

definition stale_block :: array3 where
  "stale_block = (\<lambda>trc i c. 7)"

text \<open>A field that varies along all three directions, and a uniform one.\<close>

definition sample_field :: array3 where
  "sample_field = (\<lambda>k j i. real_of_int (i * i + 3 * i + 10 * j + 100 * k))"

definition uniform_field :: array3 where
  "uniform_field = (\<lambda>k j i. 5)"

text \<open>The scenario with the uniform field, in a later call: the block holds old values.\<close>

definition uniform_memory :: Memory where
  "uniform_memory =
     scenario_memory\<lparr>TracerField := (\<lambda>trc. uniform_field), gradTRC := Some stale_block\<rparr>"

definition uniform_memory_KDIR :: Memory where
  "uniform_memory_KDIR = uniform_memory\<lparr>globals := scenario_globals\<lparr>g_dir := KDIR\<rparr>\<rparr>"

text \<open>
  A grid of unequal cells, the same along each direction: cell \<open>n\<close> lies between the faces
  \<open>n\<^sup>2 - n\<close> and \<open>n\<^sup>2 + n\<close>, so its centre is \<open>n\<^sup>2\<close> and its width \<open>2 n\<close>; and the field
  \<open>3 + 2 x\<close> of the cell-centre coordinate \<open>x\<close> along the direction \<open>d\<close>.
\<close>

definition stretched_grid :: Grid where
  "stretched_grid =
     \<lparr>grid_x = (\<lambda>d n. real_of_int (n * n)),
      grid_xr = (\<lambda>d n. real_of_int (n * n + n)),
      grid_dx = (\<lambda>d n. real_of_int (2 * n)),
      grid_inv_dx = (\<lambda>d n. 1 / real_of_int (2 * n)),
      grid_inv_dxi = (\<lambda>d n. 1 / real_of_int (2 * n + 1))\<rparr>"

definition affine_field :: "int \<Rightarrow> array3" where
  "affine_field d =
     (\<lambda>k j i. 3 + 2 * grid_x stretched_grid d (if d = IDIR then i else if d = JDIR then j else k))"

text \<open>
  The scenario with other densities: one differs from the scenario at the cell after the
  last one of the range \<open>[0, 0]\<close>, the other only far from that range, where the tracer
  field differs too.
\<close>

definition next_cell_sweep :: Sweep where
  "next_cell_sweep = \<lparr>vn = (\<lambda>i nv. if i = 1 then 3 else 1)\<rparr>"

definition far_sweep :: Sweep where
  "far_sweep = \<lparr>vn = (\<lambda>i nv. if 2 \<le> i then 3 else 1)\<rparr>"

definition far_field :: array3 where
  "far_field = (\<lambda>k j i. if i \<le> 0 then 1 else if i = 1 then 2 else 9)"

definition far_grid :: Grid where
  "far_grid =
     scenario_grid\<lparr>grid_dx := (\<lambda>d n. if 2 \<le> n then 1 / 50 else 1 / 100),
                   grid_inv_dxi := (\<lambda>d n. if 1 \<le> n then 50 else 100)\<rparr>"

definition next_cell_memory :: Memory where
  "next_cell_memory = scenario_memory\<lparr>sweep := next_cell_sweep\<rparr>"

definition far_memory :: Memory where
  "far_memory =
     scenario_memory\<lparr>TracerField := (\<lambda>trc. far_field), sweep := far_sweep, grid := far_grid\<rparr>"

text \<open>The memory in which the input parameter \<open>p\<close> has the value \<open>v\<close>.\<close>

definition set_inputParam :: "Memory \<Rightarrow> int \<Rightarrow> real \<Rightarrow> Memory" where
  "set_inputParam m p v =
     m\<lparr>globals := (globals m)\<lparr>g_inputParam := (g_inputParam (globals m))(p := v)\<rparr>\<rparr>"

section \<open>Closed forms of the loops\<close>

lemma fold_rows:
  "distinct xs \<Longrightarrow>
   fold (\<lambda>i A. A(i := h i (A i))) xs A = (\<lambda>n. if n \<in> set xs then h n (A n) else A n)"
proof (induction xs arbitrary: A)
  case Nil
  show ?case by simp
next
  case (Cons y ys)
  from Cons.prems have y: "y \<notin> set ys" and d: "distinct ys"
    by simp_all
  have "fold (\<lambda>i A. A(i := h i (A i))) (y # ys) A
      = fold (\<lambda>i A. A(i := h i (A i))) ys (A(y := h y (A y)))"
    by simp
  also have "\<dots> = (\<lambda>n. if n \<in> set ys then h n ((A(y := h y (A y))) n)
                     else (A(y := h y (A y))) n)"
    by (rule Cons.IH [OF d])
  also have "\<dots> = (\<lambda>n. if n \<in> set (y # ys) then h n (A n) else A n)"
    using y by (auto simp: fun_eq_iff)
  finally show ?case .
qed

lemma fold_rows_upto:
  "fold (\<lambda>i A. A(i := h i (A i))) [beg..end'] A
     = (\<lambda>n. if beg \<le> n \<and> n \<le> end' then h n (A n) else A n)"
  by (simp add: fold_rows)

lemma fold_assign2_one:
  "fold (\<lambda>i A. assign2 A i c (a i)) [beg..end'] A
     = (\<lambda>n. if beg \<le> n \<and> n \<le> end' then (A n)(c := a n) else A n)"
  using fold_rows_upto [where h = "\<lambda>i row. row(c := a i)"]
  by (simp add: assign2_def)

lemma fold_assign2_two:
  "fold (\<lambda>i A. assign2 (assign2 A i 0 (a i)) i 1 (b i)) [beg..end'] A
     = (\<lambda>n. if beg \<le> n \<and> n \<le> end' then (A n)(0 := a n, 1 := b n) else A n)"
  using fold_rows_upto [where h = "\<lambda>i row. row(0 := a i, 1 := b i)"]
  by (simp add: assign2_def)

lemma fold_assign2_three:
  "fold (\<lambda>i A. assign2 (assign2 (assign2 A i 0 (a i)) i 1 (b i)) i 2 (c i)) [beg..end'] A
     = (\<lambda>n. if beg \<le> n \<and> n \<le> end' then (A n)(0 := a n, 1 := b n, 2 := c n) else A n)"
  using fold_rows_upto [where h = "\<lambda>i row. row(0 := a i, 1 := b i, 2 := c i)"]
  by (simp add: assign2_def)

text \<open>
  What a sweep along each direction leaves in \<^verbatim>\<open>gradField\<close>. With two dimensions the
  sweeps along the first and the second direction assign the components \<open>0\<close> and \<open>1\<close> and
  leave the component \<open>2\<close> as it was.
\<close>

lemma GetTracerGradient_IDIR:
  "g_dir g = IDIR \<Longrightarrow>
   GetTracerGradient g grd F G beg end' =
     (\<lambda>n. if beg \<le> n \<and> n \<le> end'
          then (G n)
            (0 := (F (g_k g) (g_j g) (n + 1) - F (g_k g) (g_j g) n) * grid_inv_dxi grd IDIR n,
             1 := 0.25 * (F (g_k g) (g_j g + 1) n + F (g_k g) (g_j g + 1) (n + 1)
                        - F (g_k g) (g_j g - 1) n - F (g_k g) (g_j g - 1) (n + 1))
                  * grid_inv_dx grd JDIR (g_j g))
          else G n)"
  by (simp add: GetTracerGradient_def Let_def DIM_EXPAND_def DIMENSIONS_def fold_assign2_two
      cong: if_cong)

lemma GetTracerGradient_JDIR:
  "g_dir g = JDIR \<Longrightarrow>
   GetTracerGradient g grd F G beg end' =
     (\<lambda>n. if beg \<le> n \<and> n \<le> end'
          then (G n)
            (0 := 0.25 * (F (g_k g) n (g_i g + 1) + F (g_k g) (n + 1) (g_i g + 1)
                        - F (g_k g) n (g_i g - 1) - F (g_k g) (n + 1) (g_i g - 1))
                  * grid_inv_dx grd IDIR (g_i g),
             1 := (F (g_k g) (n + 1) (g_i g) - F (g_k g) n (g_i g)) * grid_inv_dxi grd JDIR n)
          else G n)"
  by (simp add: GetTracerGradient_def Let_def DIM_EXPAND_def DIMENSIONS_def fold_assign2_two
      IDIR_def JDIR_def cong: if_cong)

lemma GetTracerGradient_KDIR:
  "g_dir g = KDIR \<Longrightarrow>
   GetTracerGradient g grd F G beg end' =
     (\<lambda>n. if beg \<le> n \<and> n \<le> end'
          then (G n)
            (0 := 0.25 * (F n (g_j g) (g_i g + 1) + F (n + 1) (g_j g) (g_i g + 1)
                        - F n (g_j g) (g_i g - 1) - F (n + 1) (g_j g) (g_i g - 1))
                  * grid_inv_dx grd IDIR (g_i g),
             1 := 0.25 * (F n (g_j g + 1) (g_i g) + F (n + 1) (g_j g + 1) (g_i g)
                        - F n (g_j g - 1) (g_i g) - F (n + 1) (g_j g - 1) (g_i g))
                  * grid_inv_dx grd JDIR (g_j g),
             2 := (F (n + 1) (g_j g) (g_i g) - F n (g_j g) (g_i g)) * grid_inv_dxi grd KDIR n)
          else G n)"
  by (simp add: GetTracerGradient_def Let_def fold_assign2_three
      IDIR_def JDIR_def KDIR_def cong: if_cong)

lemma GetTracerGradient_other:
  "g_dir g \<noteq> IDIR \<Longrightarrow> g_dir g \<noteq> JDIR \<Longrightarrow> g_dir g \<noteq> KDIR \<Longrightarrow>
   GetTracerGradient g grd F G beg end' = G"
  by (simp add: GetTracerGradient_def Let_def)

text \<open>What a call of \<^verbatim>\<open>RHS_TRACER_Flux\<close> leaves in memory; the only species is \<open>0\<close>.\<close>

lemma RHS_TRACER_Flux_tracer_flux:
  "tracer_flux (RHS_TRACER_Flux fresh m beg end') =
     (\<lambda>i. if beg \<le> i \<and> i \<le> end'
          then (tracer_flux m i)
            (0 := (vn (sweep m) i RHO * grid_dx (grid m) (g_dir (globals m)) i
                   + vn (sweep m) (i + 1) RHO * grid_dx (grid m) (g_dir (globals m)) (i + 1))
                  / (grid_dx (grid m) (g_dir (globals m)) i
                     + grid_dx (grid m) (g_dir (globals m)) (i + 1))
                  * nu_dye (globals m)
                  * GetTracerGradient (globals m) (grid m) (TracerField m 0)
                      (gradTRC_buffer fresh m 0) beg end' i (g_dir (globals m)))
          else tracer_flux m i)"
  by (simp add: RHS_TRACER_Flux_def Let_def NTRACER_def fold_assign2_one cong: if_cong)

lemma RHS_TRACER_Flux_gradTRC:
  "gradTRC (RHS_TRACER_Flux fresh m beg end') =
     Some ((gradTRC_buffer fresh m)
       (0 := GetTracerGradient (globals m) (grid m) (TracerField m 0)
               (gradTRC_buffer fresh m 0) beg end'))"
  by (simp add: RHS_TRACER_Flux_def Let_def NTRACER_def)

lemma RHS_TRACER_Flux_inputs:
  "globals (RHS_TRACER_Flux fresh m beg end') = globals m"
  "TracerField (RHS_TRACER_Flux fresh m beg end') = TracerField m"
  "sweep (RHS_TRACER_Flux fresh m beg end') = sweep m"
  "grid (RHS_TRACER_Flux fresh m beg end') = grid m"
  by (simp_all add: RHS_TRACER_Flux_def Let_def split: prod.splits)

section \<open>The flux and the gradient along the sweep\<close>

text \<open>
  Claim C1. For every species \<open>trc\<close> and every cell \<open>i\<close> of the inclusive range from \<open>beg\<close> to
  \<open>end\<close>, the call leaves in \<^verbatim>\<open>tracer_flux[i][trc]\<close> the product of three factors: the
  densities of the cells \<open>i\<close> and \<open>i + 1\<close> averaged with their widths as weights; the
  diffusivity \<open>chi / (UNIT_LENGTH * UNIT_VELOCITY)\<close> with
  \<open>chi = LENGTH * (2 * U_FLOW) / REYNOLDS\<close>; and the component along the sweep direction
  of the gradient that \<^verbatim>\<open>GetTracerGradient\<close> returns for that cell.
\<close>

theorem flux_formula:
  assumes "0 \<le> trc" and "trc < NTRACER" and "beg \<le> i" and "i \<le> end'"
  shows "tracer_flux (RHS_TRACER_Flux fresh m beg end') i trc =
      (vn (sweep m) i RHO * grid_dx (grid m) (g_dir (globals m)) i
       + vn (sweep m) (i + 1) RHO * grid_dx (grid m) (g_dir (globals m)) (i + 1))
      / (grid_dx (grid m) (g_dir (globals m)) i + grid_dx (grid m) (g_dir (globals m)) (i + 1))
      * (g_inputParam (globals m) LENGTH * (2 * g_inputParam (globals m) U_FLOW)
           / g_inputParam (globals m) REYNOLDS
         / (UNIT_LENGTH (globals m) * UNIT_VELOCITY (globals m)))
      * GetTracerGradient (globals m) (grid m) (TracerField m trc)
          (gradTRC_buffer fresh m trc) beg end' i (g_dir (globals m))"
proof -
  from assms(1,2) have trc: "trc = 0"
    by (simp add: NTRACER_def)
  show ?thesis
    unfolding trc using assms(3,4)
    by (simp add: RHS_TRACER_Flux_tracer_flux nu_dye_def Let_def)
qed

text \<open>The scenario of the spec: the gradient is \<open>100\<close> and the flux \<open>0.02\<close>.\<close>

theorem flux_formula_witness:
  "(0::int) \<le> 0 \<and> (0::int) < NTRACER
   \<and> tracer_flux (RHS_TRACER_Flux zero_block scenario_memory 0 0) 0 0 = 1 / 50
   \<and> GetTracerGradient scenario_globals scenario_grid scenario_field (zero_block 0) 0 0 0 0 = 100"
  using flux_formula [of 0 0 0 0 zero_block scenario_memory]
  by (simp add: NTRACER_def scenario_memory_def scenario_globals_def scenario_grid_def
      scenario_sweep_def scenario_field_def gradTRC_buffer_def zero_block_def
      UNIT_LENGTH_def UNIT_VELOCITY_def LENGTH_def U_FLOW_def REYNOLDS_def RHO_def
      GetTracerGradient_IDIR IDIR_def)

text \<open>
  Claim C2. For every cell \<open>n\<close> of the range, the gradient component along the sweep
  direction is the difference of the field values of the next and of the current cell
  along that direction, times the inverse interface spacing there; this for a sweep
  along each of the three directions.
\<close>

theorem sweep_gradient_component:
  assumes "beg \<le> n" and "n \<le> end'"
  shows "(g_dir g = IDIR \<longrightarrow>
            GetTracerGradient g grd F G beg end' n 0
              = (F (g_k g) (g_j g) (n + 1) - F (g_k g) (g_j g) n) * grid_inv_dxi grd IDIR n)
       \<and> (g_dir g = JDIR \<longrightarrow>
            GetTracerGradient g grd F G beg end' n 1
              = (F (g_k g) (n + 1) (g_i g) - F (g_k g) n (g_i g)) * grid_inv_dxi grd JDIR n)
       \<and> (g_dir g = KDIR \<longrightarrow>
            GetTracerGradient g grd F G beg end' n 2
              = (F (n + 1) (g_j g) (g_i g) - F n (g_j g) (g_i g)) * grid_inv_dxi grd KDIR n)"
  using assms
  by (simp add: GetTracerGradient_IDIR GetTracerGradient_JDIR GetTracerGradient_KDIR)

theorem sweep_gradient_component_witness:
  "(0::int) \<le> 1 \<and> (1::int) \<le> 2
   \<and> GetTracerGradient scenario_globals scenario_grid sample_field (zero_block 0) 0 2 1 0 = 600
   \<and> GetTracerGradient (scenario_globals\<lparr>g_dir := JDIR\<rparr>) scenario_grid sample_field
        (zero_block 0) 0 2 1 1 = 1000
   \<and> GetTracerGradient (scenario_globals\<lparr>g_dir := KDIR\<rparr>) scenario_grid sample_field
        (zero_block 0) 0 2 1 2 = 10000"
  using sweep_gradient_component [of 0 1 2 scenario_globals scenario_grid sample_field "zero_block 0"]
    sweep_gradient_component [of 0 1 2 "scenario_globals\<lparr>g_dir := JDIR\<rparr>" scenario_grid
      sample_field "zero_block 0"]
    sweep_gradient_component [of 0 1 2 "scenario_globals\<lparr>g_dir := KDIR\<rparr>" scenario_grid
      sample_field "zero_block 0"]
  by (simp add: scenario_globals_def scenario_grid_def sample_field_def)

section \<open>The transverse components\<close>

text \<open>
  Claim C3, as stated: for every cell of the range and each transverse direction, the
  transverse gradient component is a quarter of the sum of the field values one step up
  in that direction minus those one step down, at the current and the next cell of the
  sweep, times the inverse spacing of that direction. With two dimensions a sweep along
  the first direction does not assign the component of the third direction: after the
  call on a zero block it is \<open>0\<close>, while the formula gives \<open>10000\<close>.
\<close>

theorem transverse_third_component_counterexample:
  "GetTracerGradient scenario_globals scenario_grid sample_field (zero_block 0) 0 0 0 2
     \<noteq> 0.25 * (sample_field 1 0 0 + sample_field 1 0 1
               - sample_field (- 1) 0 0 - sample_field (- 1) 0 1)
         * grid_inv_dx scenario_grid KDIR 0"
  by (simp add: GetTracerGradient_IDIR scenario_globals_def scenario_grid_def sample_field_def
      zero_block_def)

text \<open>
  Claim C3, amended. For every cell \<open>n\<close> of the range, each transverse component that the
  two-dimensional configuration computes is that four-point difference times the
  inverse spacing of its direction, with no metric factor: the component \<open>1\<close> in a sweep
  along the first direction, the component \<open>0\<close> in a sweep along the second, and both in a
  sweep along the third. A sweep along the first or the second direction leaves the
  component \<open>2\<close> as it found it.
\<close>

theorem transverse_gradient_components:
  assumes "beg \<le> n" and "n \<le> end'"
  shows "(g_dir g = IDIR \<longrightarrow>
            GetTracerGradient g grd F G beg end' n 1
              = 0.25 * (F (g_k g) (g_j g + 1) n + F (g_k g) (g_j g + 1) (n + 1)
                      - F (g_k g) (g_j g - 1) n - F (g_k g) (g_j g - 1) (n + 1))
                * grid_inv_dx grd JDIR (g_j g)
          \<and> GetTracerGradient g grd F G beg end' n 2 = G n 2)
       \<and> (g_dir g = JDIR \<longrightarrow>
            GetTracerGradient g grd F G beg end' n 0
              = 0.25 * (F (g_k g) n (g_i g + 1) + F (g_k g) (n + 1) (g_i g + 1)
                      - F (g_k g) n (g_i g - 1) - F (g_k g) (n + 1) (g_i g - 1))
                * grid_inv_dx grd IDIR (g_i g)
          \<and> GetTracerGradient g grd F G beg end' n 2 = G n 2)
       \<and> (g_dir g = KDIR \<longrightarrow>
            GetTracerGradient g grd F G beg end' n 0
              = 0.25 * (F n (g_j g) (g_i g + 1) + F (n + 1) (g_j g) (g_i g + 1)
                      - F n (g_j g) (g_i g - 1) - F (n + 1) (g_j g) (g_i g - 1))
                * grid_inv_dx grd IDIR (g_i g)
          \<and> GetTracerGradient g grd F G beg end' n 1
              = 0.25 * (F n (g_j g + 1) (g_i g) + F (n + 1) (g_j g + 1) (g_i g)
                      - F n (g_j g - 1) (g_i g) - F (n + 1) (g_j g - 1) (g_i g))
                * grid_inv_dx grd JDIR (g_j g))"
  using assms
  by (simp add: GetTracerGradient_IDIR GetTracerGradient_JDIR GetTracerGradient_KDIR)

theorem transverse_gradient_components_witness:
  "(0::int) \<le> 1 \<and> (1::int) \<le> 2
   \<and> GetTracerGradient scenario_globals scenario_grid sample_field (stale_block 0) 0 2 1 1 = 1000
   \<and> GetTracerGradient scenario_globals scenario_grid sample_field (stale_block 0) 0 2 1 2 = 7
   \<and> GetTracerGradient (scenario_globals\<lparr>g_dir := JDIR\<rparr>) scenario_grid sample_field
        (stale_block 0) 0 2 1 0 = 300
   \<and> GetTracerGradient (scenario_globals\<lparr>g_dir := JDIR\<rparr>) scenario_grid sample_field
        (stale_block 0) 0 2 1 2 = 7
   \<and> GetTracerGradient (scenario_globals\<lparr>g_dir := KDIR\<rparr>) scenario_grid sample_field
        (stale_block 0) 0 2 1 0 = 300
   \<and> GetTracerGradient (scenario_globals\<lparr>g_dir := KDIR\<rparr>) scenario_grid sample_field
        (stale_block 0) 0 2 1 1 = 1000"
  using transverse_gradient_components [of 0 1 2 scenario_globals scenario_grid sample_field
      "stale_block 0"]
    transverse_gradient_components [of 0 1 2 "scenario_globals\<lparr>g_dir := JDIR\<rparr>" scenario_grid
      sample_field "stale_block 0"]
    transverse_gradient_components [of 0 1 2 "scenario_globals\<lparr>g_dir := KDIR\<rparr>" scenario_grid
      sample_field "stale_block 0"]
  by (simp add: scenario_globals_def scenario_grid_def sample_field_def stale_block_def)

section \<open>Linear and uniform fields\<close>

lemma affine_slope:
  fixes a b w x0 x1 f0 f1 :: real
  assumes "w * (x1 - x0) = 1" and "f1 = a + b * x1" and "f0 = a + b * x0"
  shows "(f1 - f0) * w = b"
proof -
  have "(f1 - f0) * w = b * (w * (x1 - x0))"
    unfolding assms(2,3) by (simp add: algebra_simps)
  with assms(1) show ?thesis by simp
qed

text \<open>
  Claim C4. Where the inverse interface spacing of the grid is the reciprocal of the
  distance between the two cell centres, and the field is \<open>a + b x\<close> of the cell-centre
  coordinate \<open>x\<close> along the sweep direction at the two cells of an interface, the gradient
  component along the sweep direction is \<open>b\<close> at that interface; the cell widths need
  not be equal. This for every cell of the range and each sweep direction.
\<close>

theorem affine_field_gradient:
  assumes "beg \<le> n" and "n \<le> end'"
    and spacing: "grid_inv_dxi grd (g_dir g) n
                  * (grid_x grd (g_dir g) (n + 1) - grid_x grd (g_dir g) n) = 1"
  shows "(g_dir g = IDIR \<longrightarrow>
            (\<forall>c \<in> {n, n + 1}. F (g_k g) (g_j g) c = a + b * grid_x grd IDIR c) \<longrightarrow>
            GetTracerGradient g grd F G beg end' n 0 = b)
       \<and> (g_dir g = JDIR \<longrightarrow>
            (\<forall>c \<in> {n, n + 1}. F (g_k g) c (g_i g) = a + b * grid_x grd JDIR c) \<longrightarrow>
            GetTracerGradient g grd F G beg end' n 1 = b)
       \<and> (g_dir g = KDIR \<longrightarrow>
            (\<forall>c \<in> {n, n + 1}. F c (g_j g) (g_i g) = a + b * grid_x grd KDIR c) \<longrightarrow>
            GetTracerGradient g grd F G beg end' n 2 = b)"
proof (intro conjI impI)
  assume dir: "g_dir g = IDIR"
    and lin: "\<forall>c \<in> {n, n + 1}. F (g_k g) (g_j g) c = a + b * grid_x grd IDIR c"
  have "GetTracerGradient g grd F G beg end' n 0
      = (F (g_k g) (g_j g) (n + 1) - F (g_k g) (g_j g) n) * grid_inv_dxi grd IDIR n"
    using assms(1,2) dir by (simp add: GetTracerGradient_IDIR)
  also have "\<dots> = b"
  proof (rule affine_slope)
    show "grid_inv_dxi grd IDIR n * (grid_x grd IDIR (n + 1) - grid_x grd IDIR n) = 1"
      using spacing unfolding dir .
    show "F (g_k g) (g_j g) (n + 1) = a + b * grid_x grd IDIR (n + 1)"
      using lin by simp
    show "F (g_k g) (g_j g) n = a + b * grid_x grd IDIR n"
      using lin by simp
  qed
  finally show "GetTracerGradient g grd F G beg end' n 0 = b" .
next
  assume dir: "g_dir g = JDIR"
    and lin: "\<forall>c \<in> {n, n + 1}. F (g_k g) c (g_i g) = a + b * grid_x grd JDIR c"
  have "GetTracerGradient g grd F G beg end' n 1
      = (F (g_k g) (n + 1) (g_i g) - F (g_k g) n (g_i g)) * grid_inv_dxi grd JDIR n"
    using assms(1,2) dir by (simp add: GetTracerGradient_JDIR)
  also have "\<dots> = b"
  proof (rule affine_slope)
    show "grid_inv_dxi grd JDIR n * (grid_x grd JDIR (n + 1) - grid_x grd JDIR n) = 1"
      using spacing unfolding dir .
    show "F (g_k g) (n + 1) (g_i g) = a + b * grid_x grd JDIR (n + 1)"
      using lin by simp
    show "F (g_k g) n (g_i g) = a + b * grid_x grd JDIR n"
      using lin by simp
  qed
  finally show "GetTracerGradient g grd F G beg end' n 1 = b" .
next
  assume dir: "g_dir g = KDIR"
    and lin: "\<forall>c \<in> {n, n + 1}. F c (g_j g) (g_i g) = a + b * grid_x grd KDIR c"
  have "GetTracerGradient g grd F G beg end' n 2
      = (F (n + 1) (g_j g) (g_i g) - F n (g_j g) (g_i g)) * grid_inv_dxi grd KDIR n"
    using assms(1,2) dir by (simp add: GetTracerGradient_KDIR)
  also have "\<dots> = b"
  proof (rule affine_slope)
    show "grid_inv_dxi grd KDIR n * (grid_x grd KDIR (n + 1) - grid_x grd KDIR n) = 1"
      using spacing unfolding dir .
    show "F (n + 1) (g_j g) (g_i g) = a + b * grid_x grd KDIR (n + 1)"
      using lin by simp
    show "F n (g_j g) (g_i g) = a + b * grid_x grd KDIR n"
      using lin by simp
  qed
  finally show "GetTracerGradient g grd F G beg end' n 2 = b" .
qed

text \<open>On the stretched grid the neighbouring widths differ, and the slope is \<open>2\<close>.\<close>

theorem affine_field_gradient_witness:
  "(1::int) \<le> 2 \<and> (2::int) \<le> 3
   \<and> grid_inv_dxi stretched_grid IDIR 2
       * (grid_x stretched_grid IDIR (2 + 1) - grid_x stretched_grid IDIR 2) = 1
   \<and> grid_dx stretched_grid IDIR 2 \<noteq> grid_dx stretched_grid IDIR 3
   \<and> GetTracerGradient scenario_globals stretched_grid (affine_field IDIR) (zero_block 0) 1 3 2 0
       = 2
   \<and> GetTracerGradient (scenario_globals\<lparr>g_dir := JDIR\<rparr>) stretched_grid (affine_field JDIR)
        (zero_block 0) 1 3 2 1 = 2
   \<and> GetTracerGradient (scenario_globals\<lparr>g_dir := KDIR\<rparr>) stretched_grid (affine_field KDIR)
        (zero_block 0) 1 3 2 2 = 2"
  using affine_field_gradient [of 1 2 3 stretched_grid scenario_globals "affine_field IDIR" 3 2
      "zero_block 0"]
    affine_field_gradient [of 1 2 3 stretched_grid "scenario_globals\<lparr>g_dir := JDIR\<rparr>"
      "affine_field JDIR" 3 2 "zero_block 0"]
    affine_field_gradient [of 1 2 3 stretched_grid "scenario_globals\<lparr>g_dir := KDIR\<rparr>"
      "affine_field KDIR" 3 2 "zero_block 0"]
  by (simp add: scenario_globals_def stretched_grid_def affine_field_def IDIR_def JDIR_def KDIR_def)

text \<open>
  Claim C5, as stated: for a uniform field all three gradient components are zero at every
  interface of the range. In a later call of a sweep along the first direction, the
  component \<open>2\<close> of the block is the old value \<open>7\<close>: two dimensions assign only the
  components \<open>0\<close> and \<open>1\<close>.
\<close>

theorem uniform_field_third_component_counterexample:
  "GetTracerGradient (globals uniform_memory) (grid uniform_memory) (TracerField uniform_memory 0)
     (gradTRC_buffer zero_block uniform_memory 0) 0 0 0 2 \<noteq> 0"
  by (simp add: GetTracerGradient_IDIR uniform_memory_def scenario_memory_def
      scenario_globals_def gradTRC_buffer_def stale_block_def)

text \<open>
  Claim C5, amended. For a field with the same value \<open>c\<close> in every cell, for every range,
  every cell \<open>i\<close> of it and each of the three sweep directions, every gradient component
  that the sweep computes is zero (the components \<open>0\<close> and \<open>1\<close>, and in a sweep along the
  third direction the component \<open>2\<close> as well), and the flux that \<^verbatim>\<open>RHS_TRACER_Flux\<close>
  writes at \<open>i\<close> is zero whatever the densities are. In a sweep along the first or the
  second direction the component \<open>2\<close> is not computed and keeps the value of the buffer.
\<close>

theorem uniform_field_zero:
  assumes uniform: "\<forall>trc k j i. TracerField m trc k j i = c"
    and dir: "g_dir (globals m) \<in> {IDIR, JDIR, KDIR}"
    and range: "beg \<le> i" "i \<le> end'"
    and species: "0 \<le> trc" "trc < NTRACER"
  shows "GetTracerGradient (globals m) (grid m) (TracerField m trc) G beg end' i 0 = 0
       \<and> GetTracerGradient (globals m) (grid m) (TracerField m trc) G beg end' i 1 = 0
       \<and> (g_dir (globals m) = KDIR \<longrightarrow>
            GetTracerGradient (globals m) (grid m) (TracerField m trc) G beg end' i 2 = 0)
       \<and> (g_dir (globals m) \<noteq> KDIR \<longrightarrow>
            GetTracerGradient (globals m) (grid m) (TracerField m trc) G beg end' i 2 = G i 2)
       \<and> tracer_flux (RHS_TRACER_Flux fresh m beg end') i trc = 0"
proof -
  from species have trc: "trc = 0"
    by (simp add: NTRACER_def)
  from dir consider "g_dir (globals m) = IDIR" | "g_dir (globals m) = JDIR"
    | "g_dir (globals m) = KDIR"
    by auto
  then show ?thesis
  proof cases
    case 1
    then show ?thesis
      using uniform range unfolding trc
      by (simp add: RHS_TRACER_Flux_tracer_flux GetTracerGradient_IDIR IDIR_def KDIR_def)
  next
    case 2
    then show ?thesis
      using uniform range unfolding trc
      by (simp add: RHS_TRACER_Flux_tracer_flux GetTracerGradient_JDIR JDIR_def KDIR_def)
  next
    case 3
    then show ?thesis
      using uniform range unfolding trc
      by (simp add: RHS_TRACER_Flux_tracer_flux GetTracerGradient_KDIR KDIR_def)
  qed
qed

theorem uniform_field_zero_witness:
  "(\<forall>trc k j i. TracerField uniform_memory trc k j i = 5)
   \<and> g_dir (globals uniform_memory) \<in> {IDIR, JDIR, KDIR}
   \<and> (0::int) \<le> 1 \<and> (1::int) \<le> 2 \<and> (0::int) < NTRACER
   \<and> GetTracerGradient (globals uniform_memory) (grid uniform_memory)
        (TracerField uniform_memory 0) (stale_block 0) 0 2 1 0 = 0
   \<and> GetTracerGradient (globals uniform_memory) (grid uniform_memory)
        (TracerField uniform_memory 0) (stale_block 0) 0 2 1 1 = 0
   \<and> GetTracerGradient (globals uniform_memory) (grid uniform_memory)
        (TracerField uniform_memory 0) (stale_block 0) 0 2 1 2 = 7
   \<and> tracer_flux (RHS_TRACER_Flux zero_block uniform_memory 0 2) 1 0 = 0
   \<and> vn (sweep uniform_memory) 1 RHO \<noteq> 0
   \<and> GetTracerGradient (globals uniform_memory_KDIR) (grid uniform_memory_KDIR)
        (TracerField uniform_memory_KDIR 0) (stale_block 0) 0 2 1 2 = 0
   \<and> tracer_flux (RHS_TRACER_Flux zero_block uniform_memory_KDIR 0 2) 1 0 = 0"
  using uniform_field_zero [of uniform_memory 5 0 1 2 0 "stale_block 0" zero_block]
    uniform_field_zero [of uniform_memory_KDIR 5 0 1 2 0 "stale_block 0" zero_block]
  by (simp add: uniform_memory_KDIR_def uniform_memory_def scenario_memory_def
      scenario_globals_def uniform_field_def scenario_sweep_def NTRACER_def stale_block_def
      IDIR_def KDIR_def)

section \<open>Scaling with the Reynolds number\<close>

text \<open>
  Claim C6. With everything else fixed, the value of \<^verbatim>\<open>REYNOLDS\<close> doubled halves the
  diffusivity and every flux value that the call writes; with \<^verbatim>\<open>REYNOLDS\<close> multiplied
  by any \<open>s\<close>, both are divided by \<open>s\<close>: the flux is linear in the reciprocal of
  \<^verbatim>\<open>REYNOLDS\<close>.
\<close>

theorem reynolds_scaling:
  assumes "0 \<le> trc" and "trc < NTRACER" and "beg \<le> i" and "i \<le> end'"
  shows "nu_dye (globals (set_inputParam m REYNOLDS (2 * g_inputParam (globals m) REYNOLDS)))
           = nu_dye (globals m) / 2
       \<and> tracer_flux (RHS_TRACER_Flux fresh
            (set_inputParam m REYNOLDS (2 * g_inputParam (globals m) REYNOLDS)) beg end') i trc
           = tracer_flux (RHS_TRACER_Flux fresh m beg end') i trc / 2
       \<and> nu_dye (globals (set_inputParam m REYNOLDS (s * g_inputParam (globals m) REYNOLDS)))
           = nu_dye (globals m) / s
       \<and> tracer_flux (RHS_TRACER_Flux fresh
            (set_inputParam m REYNOLDS (s * g_inputParam (globals m) REYNOLDS)) beg end') i trc
           = tracer_flux (RHS_TRACER_Flux fresh m beg end') i trc / s"
proof -
  from assms(1,2) have trc: "trc = 0"
    by (simp add: NTRACER_def)
  have nu: "nu_dye (globals (set_inputParam m REYNOLDS (t * g_inputParam (globals m) REYNOLDS)))
      = nu_dye (globals m) / t" for t
    by (simp add: nu_dye_def set_inputParam_def Let_def UNIT_LENGTH_def UNIT_VELOCITY_def
        REYNOLDS_def LENGTH_def U_FLOW_def)
  have grad: "GetTracerGradient (globals (set_inputParam m REYNOLDS v)) = GetTracerGradient (globals m)"
    for v
    by (simp add: fun_eq_iff GetTracerGradient_def set_inputParam_def Let_def)
  have flux: "tracer_flux (RHS_TRACER_Flux fresh
        (set_inputParam m REYNOLDS (t * g_inputParam (globals m) REYNOLDS)) beg end') i 0
      = tracer_flux (RHS_TRACER_Flux fresh m beg end') i 0 / t" for t
    using assms(3,4)
    by (simp add: RHS_TRACER_Flux_tracer_flux nu grad)
      (simp add: set_inputParam_def gradTRC_buffer_def)
  show ?thesis
    unfolding trc using nu [of 2] nu [of s] flux [of 2] flux [of s] by simp
qed

theorem reynolds_scaling_witness:
  "(0::int) \<le> 0 \<and> (0::int) < NTRACER
   \<and> g_inputParam (globals scenario_memory) REYNOLDS = 10000
   \<and> nu_dye (globals scenario_memory) = 1 / 5000
   \<and> nu_dye (globals (set_inputParam scenario_memory REYNOLDS 20000)) = 1 / 10000
   \<and> tracer_flux (RHS_TRACER_Flux zero_block scenario_memory 0 0) 0 0 = 1 / 50
   \<and> tracer_flux (RHS_TRACER_Flux zero_block (set_inputParam scenario_memory REYNOLDS 20000) 0 0)
        0 0 = 1 / 100"
  using reynolds_scaling [of 0 0 0 0 scenario_memory zero_block 2]
  by (simp add: NTRACER_def scenario_memory_def scenario_globals_def nu_dye_def
      set_inputParam_def
      UNIT_LENGTH_def UNIT_VELOCITY_def LENGTH_def U_FLOW_def REYNOLDS_def
      RHS_TRACER_Flux_tracer_flux GetTracerGradient_IDIR IDIR_def gradTRC_buffer_def
      scenario_grid_def scenario_sweep_def scenario_field_def zero_block_def RHO_def)

section \<open>What a call changes and what it depends on\<close>

text \<open>
  Claim C7. A call changes nothing but the entries \<^verbatim>\<open>tracer_flux[i][trc]\<close> of the cells of
  the range, for the species of the run, and the gradient block: a flux entry of a cell
  before \<open>beg\<close> or after \<open>end\<close> keeps its value, and the tracer field, the sweep state, the
  grid and the globals are as before.
\<close>

theorem frame:
  "(i < beg \<or> end' < i \<longrightarrow> tracer_flux (RHS_TRACER_Flux fresh m beg end') i = tracer_flux m i)
   \<and> (trc < 0 \<or> NTRACER \<le> trc \<longrightarrow>
        tracer_flux (RHS_TRACER_Flux fresh m beg end') i trc = tracer_flux m i trc)
   \<and> TracerField (RHS_TRACER_Flux fresh m beg end') = TracerField m
   \<and> sweep (RHS_TRACER_Flux fresh m beg end') = sweep m
   \<and> grid (RHS_TRACER_Flux fresh m beg end') = grid m
   \<and> globals (RHS_TRACER_Flux fresh m beg end') = globals m"
  by (auto simp: RHS_TRACER_Flux_tracer_flux RHS_TRACER_Flux_inputs NTRACER_def)

text \<open>The sentinel \<open>-1\<close> stays at the cells \<open>1\<close> and \<open>-1\<close> when the range is the cell \<open>0\<close>.\<close>

theorem frame_witness:
  "((1::int) < 0 \<or> (0::int) < 1) \<and> NTRACER \<le> 1
   \<and> tracer_flux (RHS_TRACER_Flux zero_block scenario_memory 0 0) 1 0 = - 1
   \<and> tracer_flux (RHS_TRACER_Flux zero_block scenario_memory 0 0) (- 1) 0 = - 1
   \<and> tracer_flux (RHS_TRACER_Flux zero_block scenario_memory 0 0) 0 1 = - 1
   \<and> tracer_flux (RHS_TRACER_Flux zero_block scenario_memory 0 0) 0 0 \<noteq> - 1
   \<and> TracerField (RHS_TRACER_Flux zero_block scenario_memory 0 0) = TracerField scenario_memory"
  using frame [of 1 0 0 zero_block scenario_memory 0]
    frame [of "- 1" 0 0 zero_block scenario_memory 0]
    frame [of 0 0 0 zero_block scenario_memory 1]
  by (simp add: scenario_memory_def NTRACER_def)
    (simp add: RHS_TRACER_Flux_tracer_flux scenario_globals_def nu_dye_def
      UNIT_LENGTH_def UNIT_VELOCITY_def LENGTH_def U_FLOW_def REYNOLDS_def
      GetTracerGradient_IDIR IDIR_def gradTRC_buffer_def
      scenario_grid_def scenario_sweep_def scenario_field_def zero_block_def RHO_def)

text \<open>The gradient reads the position of the sweep and its direction, no other global.\<close>

lemma GetTracerGradient_globals:
  assumes "g_dir g2 = g_dir g" and "g_i g2 = g_i g" and "g_j g2 = g_j g" and "g_k g2 = g_k g"
  shows "GetTracerGradient g2 = GetTracerGradient g"
  using assms by (simp add: fun_eq_iff GetTracerGradient_def Let_def)

text \<open>
  The gradient over a range reads the field and the inverse interface spacing along the
  sweep direction at no cell before \<open>beg\<close>, reads the spacing at no cell after \<open>end\<close> and
  the field at no cell after \<open>end + 1\<close>.
\<close>

lemma GetTracerGradient_reads:
  assumes inv_dx: "grid_inv_dx grd2 = grid_inv_dx grd"
    and dxi: "\<forall>n \<in> {beg..end'}. grid_inv_dxi grd2 (g_dir g) n = grid_inv_dxi grd (g_dir g) n"
    and field: "\<forall>k j i. (g_dir g = IDIR \<longrightarrow> i \<in> {beg..end' + 1})
                  \<and> (g_dir g = JDIR \<longrightarrow> j \<in> {beg..end' + 1})
                  \<and> (g_dir g = KDIR \<longrightarrow> k \<in> {beg..end' + 1})
                  \<longrightarrow> F2 k j i = F k j i"
  shows "GetTracerGradient g grd2 F2 G beg end' = GetTracerGradient g grd F G beg end'"
proof -
  consider "g_dir g = IDIR" | "g_dir g = JDIR" | "g_dir g = KDIR"
    | "g_dir g \<noteq> IDIR" "g_dir g \<noteq> JDIR" "g_dir g \<noteq> KDIR"
    by blast
  then show ?thesis
  proof cases
    case 1
    with field have "F2 k j n = F k j n" if "beg \<le> n" "n \<le> end' + 1" for k j n
      using that by (simp add: IDIR_def JDIR_def KDIR_def)
    with 1 dxi show ?thesis
      by (simp add: GetTracerGradient_IDIR inv_dx fun_eq_iff)
  next
    case 2
    with field have "F2 k n i = F k n i" if "beg \<le> n" "n \<le> end' + 1" for k i n
      using that by (simp add: IDIR_def JDIR_def KDIR_def)
    with 2 dxi show ?thesis
      by (simp add: GetTracerGradient_JDIR inv_dx fun_eq_iff)
  next
    case 3
    with field have "F2 n j i = F n j i" if "beg \<le> n" "n \<le> end' + 1" for j i n
      using that by (simp add: IDIR_def JDIR_def KDIR_def)
    with 3 dxi show ?thesis
      by (simp add: GetTracerGradient_KDIR inv_dx fun_eq_iff)
  next
    case 4
    then show ?thesis
      by (simp add: GetTracerGradient_other)
  qed
qed

text \<open>
  Claim C8, as stated: the arrays are computed over the half-open range from \<open>beg\<close> to
  \<open>end\<close>, and no value at an index outside that range is read or written. With
  \<open>beg = end = 0\<close> the half-open range is empty, yet the call replaces the sentinel in
  \<^verbatim>\<open>tracer_flux[0][0]\<close>; and the value it writes there changes with the density of the
  cell \<open>1\<close>, which lies outside the range however its end is read.
\<close>

theorem half_open_range_counterexample:
  "tracer_flux (RHS_TRACER_Flux zero_block scenario_memory 0 0) 0 0
     \<noteq> tracer_flux scenario_memory 0 0
   \<and> tracer_flux (RHS_TRACER_Flux zero_block next_cell_memory 0 0) 0 0
     \<noteq> tracer_flux (RHS_TRACER_Flux zero_block scenario_memory 0 0) 0 0"
  by (simp add: RHS_TRACER_Flux_tracer_flux next_cell_memory_def scenario_memory_def
      scenario_globals_def nu_dye_def UNIT_LENGTH_def UNIT_VELOCITY_def LENGTH_def U_FLOW_def
      REYNOLDS_def GetTracerGradient_IDIR IDIR_def gradTRC_buffer_def scenario_grid_def
      scenario_sweep_def next_cell_sweep_def scenario_field_def zero_block_def RHO_def)

text \<open>
  Claim C8, amended. A call computes the gradient and the flux over the inclusive range
  from \<open>beg\<close> to \<open>end\<close>: at every cell \<open>i\<close> of it, the cell \<open>end\<close> included, the block holds
  afterwards the difference of the field at the cells \<open>i + 1\<close> and \<open>i\<close> along the sweep times
  the inverse interface spacing at \<open>i\<close>, and the flux array the density averaged over the
  cells \<open>i\<close> and \<open>i + 1\<close> times the diffusivity times that gradient. The call writes no
  flux entry and no gradient entry of a cell outside the range. What it writes depends
  on the arrays indexed along the sweep only at the cells from \<open>beg\<close> to \<open>end + 1\<close> (flow
  variables, cell widths, tracer field) and from \<open>beg\<close> to \<open>end\<close> (inverse interface
  spacing): two memories that agree there, and on the globals, the transverse inverse
  widths and the output arrays, end with the same flux and gradient arrays. And the cell
  \<open>end + 1\<close> is read: where the width of that cell, the sum of the widths of the cells \<open>end\<close>
  and \<open>end + 1\<close>, the diffusivity and the gradient at \<open>end\<close> are not zero, another density
  \<open>v\<close> in the cell \<open>end + 1\<close> gives another flux at \<open>end\<close>.
\<close>

theorem inclusive_range_of_a_call:
  assumes same_globals: "globals m2 = globals m"
    and same_outputs: "tracer_flux m2 = tracer_flux m" "gradTRC m2 = gradTRC m"
    and vn: "\<forall>n \<in> {beg..end' + 1}. vn (sweep m2) n = vn (sweep m) n"
    and dx: "\<forall>n \<in> {beg..end' + 1}.
               grid_dx (grid m2) (g_dir (globals m)) n = grid_dx (grid m) (g_dir (globals m)) n"
    and dxi: "\<forall>n \<in> {beg..end'}.
               grid_inv_dxi (grid m2) (g_dir (globals m)) n
                 = grid_inv_dxi (grid m) (g_dir (globals m)) n"
    and inv_dx: "grid_inv_dx (grid m2) = grid_inv_dx (grid m)"
    and field: "\<forall>trc k j i. (g_dir (globals m) = IDIR \<longrightarrow> i \<in> {beg..end' + 1})
                  \<and> (g_dir (globals m) = JDIR \<longrightarrow> j \<in> {beg..end' + 1})
                  \<and> (g_dir (globals m) = KDIR \<longrightarrow> k \<in> {beg..end' + 1})
                  \<longrightarrow> TracerField m2 trc k j i = TracerField m trc k j i"
  shows "tracer_flux (RHS_TRACER_Flux fresh m2 beg end')
           = tracer_flux (RHS_TRACER_Flux fresh m beg end')
       \<and> gradTRC (RHS_TRACER_Flux fresh m2 beg end') = gradTRC (RHS_TRACER_Flux fresh m beg end')
       \<and> (\<forall>i. i < beg \<or> end' < i \<longrightarrow>
            tracer_flux (RHS_TRACER_Flux fresh m beg end') i = tracer_flux m i
            \<and> (\<forall>trc. gradTRC_buffer fresh (RHS_TRACER_Flux fresh m beg end') trc i
                        = gradTRC_buffer fresh m trc i))
       \<and> (\<forall>i \<in> {beg..end'}.
            tracer_flux (RHS_TRACER_Flux fresh m beg end') i 0
              = (vn (sweep m) i RHO * grid_dx (grid m) (g_dir (globals m)) i
                 + vn (sweep m) (i + 1) RHO * grid_dx (grid m) (g_dir (globals m)) (i + 1))
                / (grid_dx (grid m) (g_dir (globals m)) i
                   + grid_dx (grid m) (g_dir (globals m)) (i + 1))
                * nu_dye (globals m)
                * gradTRC_buffer fresh (RHS_TRACER_Flux fresh m beg end') 0 i (g_dir (globals m))
            \<and> (g_dir (globals m) = IDIR \<longrightarrow>
                 gradTRC_buffer fresh (RHS_TRACER_Flux fresh m beg end') 0 i 0
                   = (TracerField m 0 (g_k (globals m)) (g_j (globals m)) (i + 1)
                      - TracerField m 0 (g_k (globals m)) (g_j (globals m)) i)
                     * grid_inv_dxi (grid m) IDIR i)
            \<and> (g_dir (globals m) = JDIR \<longrightarrow>
                 gradTRC_buffer fresh (RHS_TRACER_Flux fresh m beg end') 0 i 1
                   = (TracerField m 0 (g_k (globals m)) (i + 1) (g_i (globals m))
                      - TracerField m 0 (g_k (globals m)) i (g_i (globals m)))
                     * grid_inv_dxi (grid m) JDIR i)
            \<and> (g_dir (globals m) = KDIR \<longrightarrow>
                 gradTRC_buffer fresh (RHS_TRACER_Flux fresh m beg end') 0 i 2
                   = (TracerField m 0 (i + 1) (g_j (globals m)) (g_i (globals m))
                      - TracerField m 0 i (g_j (globals m)) (g_i (globals m)))
                     * grid_inv_dxi (grid m) KDIR i))
       \<and> (beg \<le> end'
            \<and> grid_dx (grid m) (g_dir (globals m)) (end' + 1) \<noteq> 0
            \<and> grid_dx (grid m) (g_dir (globals m)) end'
                + grid_dx (grid m) (g_dir (globals m)) (end' + 1) \<noteq> 0
            \<and> nu_dye (globals m) \<noteq> 0
            \<and> gradTRC_buffer fresh (RHS_TRACER_Flux fresh m beg end') 0 end' (g_dir (globals m))
                \<noteq> 0
            \<and> v \<noteq> vn (sweep m) (end' + 1) RHO \<longrightarrow>
          tracer_flux (RHS_TRACER_Flux fresh
              (m\<lparr>sweep := (sweep m)\<lparr>vn := assign2 (vn (sweep m)) (end' + 1) RHO v\<rparr>\<rparr>) beg end')
              end' 0
            \<noteq> tracer_flux (RHS_TRACER_Flux fresh m beg end') end' 0)"
proof -
  have buffer: "gradTRC_buffer fresh m2 = gradTRC_buffer fresh m"
    using same_outputs(2) by (simp add: gradTRC_buffer_def)
  have grad: "GetTracerGradient (globals m) (grid m2) (TracerField m2 0) G beg end'
      = GetTracerGradient (globals m) (grid m) (TracerField m 0) G beg end'" for G
    using inv_dx dxi field by (intro GetTracerGradient_reads) simp_all
  have flux: "tracer_flux (RHS_TRACER_Flux fresh m2 beg end')
      = tracer_flux (RHS_TRACER_Flux fresh m beg end')"
    using vn dx
    by (simp add: RHS_TRACER_Flux_tracer_flux same_globals same_outputs(1) buffer grad
        fun_eq_iff)
  have block: "gradTRC (RHS_TRACER_Flux fresh m2 beg end')
      = gradTRC (RHS_TRACER_Flux fresh m beg end')"
    by (simp add: RHS_TRACER_Flux_gradTRC same_globals buffer grad)
  have after: "gradTRC_buffer fresh (RHS_TRACER_Flux fresh M beg end') 0
      = GetTracerGradient (globals M) (grid M) (TracerField M 0) (gradTRC_buffer fresh M 0)
          beg end'" for M
    by (simp add: gradTRC_buffer_def RHS_TRACER_Flux_gradTRC)
  have outside: "tracer_flux (RHS_TRACER_Flux fresh m beg end') i = tracer_flux m i
      \<and> (\<forall>trc. gradTRC_buffer fresh (RHS_TRACER_Flux fresh m beg end') trc i
                  = gradTRC_buffer fresh m trc i)"
    if "i < beg \<or> end' < i" for i
  proof -
    have "GetTracerGradient g grd F G beg end' i = G i" for g grd F G
    proof -
      consider "g_dir g = IDIR" | "g_dir g = JDIR" | "g_dir g = KDIR"
        | "g_dir g \<noteq> IDIR" "g_dir g \<noteq> JDIR" "g_dir g \<noteq> KDIR"
        by blast
      then show ?thesis
        using that
        by cases (auto simp: GetTracerGradient_IDIR GetTracerGradient_JDIR
            GetTracerGradient_KDIR GetTracerGradient_other)
    qed
    with that show ?thesis
      by (auto simp: RHS_TRACER_Flux_tracer_flux gradTRC_buffer_def RHS_TRACER_Flux_gradTRC
          split: option.splits)
  qed
  have inside: "tracer_flux (RHS_TRACER_Flux fresh m beg end') i 0
        = (vn (sweep m) i RHO * grid_dx (grid m) (g_dir (globals m)) i
           + vn (sweep m) (i + 1) RHO * grid_dx (grid m) (g_dir (globals m)) (i + 1))
          / (grid_dx (grid m) (g_dir (globals m)) i
             + grid_dx (grid m) (g_dir (globals m)) (i + 1))
          * nu_dye (globals m)
          * gradTRC_buffer fresh (RHS_TRACER_Flux fresh m beg end') 0 i (g_dir (globals m))"
      "g_dir (globals m) = IDIR \<longrightarrow>
         gradTRC_buffer fresh (RHS_TRACER_Flux fresh m beg end') 0 i 0
           = (TracerField m 0 (g_k (globals m)) (g_j (globals m)) (i + 1)
              - TracerField m 0 (g_k (globals m)) (g_j (globals m)) i)
             * grid_inv_dxi (grid m) IDIR i"
      "g_dir (globals m) = JDIR \<longrightarrow>
         gradTRC_buffer fresh (RHS_TRACER_Flux fresh m beg end') 0 i 1
           = (TracerField m 0 (g_k (globals m)) (i + 1) (g_i (globals m))
              - TracerField m 0 (g_k (globals m)) i (g_i (globals m)))
             * grid_inv_dxi (grid m) JDIR i"
      "g_dir (globals m) = KDIR \<longrightarrow>
         gradTRC_buffer fresh (RHS_TRACER_Flux fresh m beg end') 0 i 2
           = (TracerField m 0 (i + 1) (g_j (globals m)) (g_i (globals m))
              - TracerField m 0 i (g_j (globals m)) (g_i (globals m)))
             * grid_inv_dxi (grid m) KDIR i"
    if "i \<in> {beg..end'}" for i
    using that
    by (simp_all add: after RHS_TRACER_Flux_tracer_flux GetTracerGradient_IDIR
        GetTracerGradient_JDIR GetTracerGradient_KDIR)
  have next_cell: "tracer_flux (RHS_TRACER_Flux fresh
        (m\<lparr>sweep := (sweep m)\<lparr>vn := assign2 (vn (sweep m)) (end' + 1) RHO v\<rparr>\<rparr>) beg end') end' 0
      \<noteq> tracer_flux (RHS_TRACER_Flux fresh m beg end') end' 0"
    if range: "beg \<le> end'"
      and d1: "grid_dx (grid m) (g_dir (globals m)) (end' + 1) \<noteq> 0"
      and s: "grid_dx (grid m) (g_dir (globals m)) end'
                + grid_dx (grid m) (g_dir (globals m)) (end' + 1) \<noteq> 0"
      and nu: "nu_dye (globals m) \<noteq> 0"
      and gr: "gradTRC_buffer fresh (RHS_TRACER_Flux fresh m beg end') 0 end' (g_dir (globals m))
                \<noteq> 0"
      and v: "v \<noteq> vn (sweep m) (end' + 1) RHO"
  proof -
    have buf: "gradTRC_buffer fresh (m\<lparr>sweep := S\<rparr>) = gradTRC_buffer fresh m" for S
      by (simp add: gradTRC_buffer_def)
    from gr have gr': "GetTracerGradient (globals m) (grid m) (TracerField m 0)
        (gradTRC_buffer fresh m 0) beg end' end' (g_dir (globals m)) \<noteq> 0"
      by (simp add: after)
    show ?thesis
      using range d1 s nu gr' v
      by (simp add: RHS_TRACER_Flux_tracer_flux buf assign2_def)
  qed
  from flux block outside inside next_cell show ?thesis
    by blast
qed

text \<open>
  The densities and the field of \<open>far_memory\<close> differ from the scenario at the cell \<open>2\<close>,
  its widths from the cell \<open>2\<close> on and its interface spacings from the cell \<open>1\<close> on; the
  range is the cell \<open>0\<close>. There the gradient is \<open>100\<close> and the flux \<open>0.02\<close>, and the
  density \<open>3\<close> in the cell \<open>1\<close> gives another flux.
\<close>

theorem inclusive_range_of_a_call_witness:
  "tracer_flux (RHS_TRACER_Flux zero_block far_memory 0 0)
     = tracer_flux (RHS_TRACER_Flux zero_block scenario_memory 0 0)
   \<and> gradTRC (RHS_TRACER_Flux zero_block far_memory 0 0)
     = gradTRC (RHS_TRACER_Flux zero_block scenario_memory 0 0)
   \<and> tracer_flux (RHS_TRACER_Flux zero_block scenario_memory 0 0) 1 = tracer_flux scenario_memory 1
   \<and> vn (sweep far_memory) 2 RHO \<noteq> vn (sweep scenario_memory) 2 RHO
   \<and> TracerField far_memory 0 0 0 2 \<noteq> TracerField scenario_memory 0 0 0 2
   \<and> gradTRC_buffer zero_block (RHS_TRACER_Flux zero_block scenario_memory 0 0) 0 0 0 = 100
   \<and> tracer_flux (RHS_TRACER_Flux zero_block scenario_memory 0 0) 0 0 = 1 / 50
   \<and> tracer_flux (RHS_TRACER_Flux zero_block
        (scenario_memory\<lparr>sweep := (sweep scenario_memory)
           \<lparr>vn := assign2 (vn (sweep scenario_memory)) (0 + 1) RHO 3\<rparr>\<rparr>) 0 0) 0 0
     \<noteq> tracer_flux (RHS_TRACER_Flux zero_block scenario_memory 0 0) 0 0"
proof -
  have dir: "g_dir (globals scenario_memory) = IDIR"
    by (simp add: scenario_memory_def scenario_globals_def)
  have "globals far_memory = globals scenario_memory"
    and "tracer_flux far_memory = tracer_flux scenario_memory"
    and "gradTRC far_memory = gradTRC scenario_memory"
    and "\<forall>n \<in> {0..0 + 1}. vn (sweep far_memory) n = vn (sweep scenario_memory) n"
    and "\<forall>n \<in> {0..0 + 1}.
           grid_dx (grid far_memory) (g_dir (globals scenario_memory)) n
             = grid_dx (grid scenario_memory) (g_dir (globals scenario_memory)) n"
    and "\<forall>n \<in> {0..0}.
           grid_inv_dxi (grid far_memory) (g_dir (globals scenario_memory)) n
             = grid_inv_dxi (grid scenario_memory) (g_dir (globals scenario_memory)) n"
    and "grid_inv_dx (grid far_memory) = grid_inv_dx (grid scenario_memory)"
    and "\<forall>trc k j i. (g_dir (globals scenario_memory) = IDIR \<longrightarrow> i \<in> {0..0 + 1})
           \<and> (g_dir (globals scenario_memory) = JDIR \<longrightarrow> j \<in> {0..0 + 1})
           \<and> (g_dir (globals scenario_memory) = KDIR \<longrightarrow> k \<in> {0..0 + 1})
           \<longrightarrow> TracerField far_memory trc k j i = TracerField scenario_memory trc k j i"
    unfolding dir
    by (simp_all add: far_memory_def scenario_memory_def far_sweep_def scenario_sweep_def
        far_grid_def scenario_grid_def far_field_def scenario_field_def)
  note call = inclusive_range_of_a_call [OF this, of zero_block 3]
  have grad: "gradTRC_buffer zero_block
      (RHS_TRACER_Flux zero_block scenario_memory 0 0) 0 0 0 = 100"
    using call
    by (simp add: scenario_memory_def scenario_globals_def scenario_field_def
        scenario_grid_def IDIR_def)
  have flux: "tracer_flux (RHS_TRACER_Flux zero_block scenario_memory 0 0) 0 0 = 1 / 50"
    using call grad
    by (simp add: scenario_memory_def scenario_globals_def scenario_field_def
        scenario_grid_def scenario_sweep_def IDIR_def nu_dye_def UNIT_LENGTH_def
        UNIT_VELOCITY_def LENGTH_def U_FLOW_def REYNOLDS_def)
  have reads: "tracer_flux (RHS_TRACER_Flux zero_block
        (scenario_memory\<lparr>sweep := (sweep scenario_memory)
           \<lparr>vn := assign2 (vn (sweep scenario_memory)) (0 + 1) RHO 3\<rparr>\<rparr>) 0 0) 0 0
     \<noteq> tracer_flux (RHS_TRACER_Flux zero_block scenario_memory 0 0) 0 0"
    using call grad
    by (simp add: scenario_memory_def scenario_globals_def scenario_field_def
        scenario_grid_def scenario_sweep_def IDIR_def nu_dye_def UNIT_LENGTH_def
        UNIT_VELOCITY_def LENGTH_def U_FLOW_def REYNOLDS_def)
  from call have rest: "tracer_flux (RHS_TRACER_Flux zero_block far_memory 0 0)
       = tracer_flux (RHS_TRACER_Flux zero_block scenario_memory 0 0)
     \<and> gradTRC (RHS_TRACER_Flux zero_block far_memory 0 0)
       = gradTRC (RHS_TRACER_Flux zero_block scenario_memory 0 0)
     \<and> tracer_flux (RHS_TRACER_Flux zero_block scenario_memory 0 0) 1
       = tracer_flux scenario_memory 1"
    by simp
  from rest grad flux reads show ?thesis
    by (simp add: far_memory_def scenario_memory_def far_sweep_def scenario_sweep_def
        far_field_def scenario_field_def)
qed

text \<open>
  Claim C9. For a sweep along one of the three directions, the flux array after the call
  does not depend on what the gradient block held before, whether left by an earlier
  call or handed out by the allocator: the entry that the flux loop reads, the component
  along the sweep direction at a cell of the range, has been written by
  \<^verbatim>\<open>GetTracerGradient\<close> in the same call.
\<close>

theorem flux_independent_of_old_gradients:
  assumes "g_dir (globals m) \<in> {IDIR, JDIR, KDIR}"
  shows "tracer_flux (RHS_TRACER_Flux fresh1 (m\<lparr>gradTRC := old1\<rparr>) beg end')
           = tracer_flux (RHS_TRACER_Flux fresh2 (m\<lparr>gradTRC := old2\<rparr>) beg end')
       \<and> (\<forall>i \<in> {beg..end'}.
            GetTracerGradient (globals m) (grid m) F G1 beg end' i (g_dir (globals m))
              = GetTracerGradient (globals m) (grid m) F G2 beg end' i (g_dir (globals m)))"
proof -
  have written: "GetTracerGradient (globals m) (grid m) F G1 beg end' i (g_dir (globals m))
      = GetTracerGradient (globals m) (grid m) F G2 beg end' i (g_dir (globals m))"
    if "beg \<le> i" "i \<le> end'" for i F G1 G2
  proof -
    from assms consider "g_dir (globals m) = IDIR" | "g_dir (globals m) = JDIR"
      | "g_dir (globals m) = KDIR"
      by auto
    then show ?thesis
      using that
      by cases (simp_all add: GetTracerGradient_IDIR GetTracerGradient_JDIR
          GetTracerGradient_KDIR IDIR_def JDIR_def KDIR_def)
  qed
  have "tracer_flux (RHS_TRACER_Flux fresh1 (m\<lparr>gradTRC := old1\<rparr>) beg end') i
      = tracer_flux (RHS_TRACER_Flux fresh2 (m\<lparr>gradTRC := old2\<rparr>) beg end') i" for i
    using written [of i "TracerField m 0" "gradTRC_buffer fresh1 (m\<lparr>gradTRC := old1\<rparr>) 0"
        "gradTRC_buffer fresh2 (m\<lparr>gradTRC := old2\<rparr>) 0"]
    by (simp add: RHS_TRACER_Flux_tracer_flux)
  with written show ?thesis
    by (simp add: fun_eq_iff)
qed

theorem flux_independent_of_old_gradients_witness:
  "g_dir (globals scenario_memory) \<in> {IDIR, JDIR, KDIR}
   \<and> tracer_flux (RHS_TRACER_Flux zero_block (scenario_memory\<lparr>gradTRC := None\<rparr>) 0 0)
     = tracer_flux (RHS_TRACER_Flux zero_block (scenario_memory\<lparr>gradTRC := Some stale_block\<rparr>) 0 0)
   \<and> tracer_flux (RHS_TRACER_Flux zero_block (scenario_memory\<lparr>gradTRC := None\<rparr>) 0 0)
     = tracer_flux (RHS_TRACER_Flux stale_block (scenario_memory\<lparr>gradTRC := None\<rparr>) 0 0)
   \<and> zero_block 0 0 0 \<noteq> stale_block 0 0 0"
  using flux_independent_of_old_gradients [of scenario_memory zero_block None 0 0 zero_block
      "Some stale_block"]
    flux_independent_of_old_gradients [of scenario_memory zero_block None 0 0 stale_block None]
  by (simp add: scenario_memory_def scenario_globals_def zero_block_def stale_block_def)

section \<open>The unit scales of the repository\<close>

text \<open>Two values of the rounding that are known: a tenth, and a number that is a double.\<close>

lemma double_round_examples:
  "double_round (1 / 10) = Some (3602879701896397 / 2 ^ 55)"
  "double_round 3 = Some 3"
  by (simp_all add: double_round_def binade_def round_ties_even_def Let_def)

text \<open>
  Claim C10, as stated: the factors \<^verbatim>\<open>LENGTH\<close> and \<^verbatim>\<open>U_FLOW\<close> cancel exactly, the
  diffusivity is \<open>2 / REYNOLDS\<close>, and the flux is the same for any nonzero values of the
  two. In double arithmetic, with \<^verbatim>\<open>REYNOLDS\<close> \<open>= 10000\<close>, the diffusivity computed for
  \<^verbatim>\<open>LENGTH\<close> \<open>= 3\<close> and \<^verbatim>\<open>U_FLOW\<close> \<open>= 7\<close> is one unit in the last place below the quotient
  \<open>2 / REYNOLDS\<close>, which is what the values \<open>1\<close> and \<open>1\<close> of the scenario give; the flux of
  the scenario, with interface density \<open>1\<close> and gradient \<open>100\<close>, differs in the last place
  too.
\<close>

theorem length_and_velocity_double_counterexample:
  "nu_dye_double (globals (set_inputParam (set_inputParam scenario_memory LENGTH 3) U_FLOW 7))
     = Some (7378697629483820 / 2 ^ 65)
   \<and> double_div (Some 2) (Some (g_inputParam (globals scenario_memory) REYNOLDS))
     = Some (7378697629483821 / 2 ^ 65)
   \<and> nu_dye_double (globals scenario_memory) = Some (7378697629483821 / 2 ^ 65)
   \<and> nu_dye_double (globals (set_inputParam (set_inputParam scenario_memory LENGTH 3) U_FLOW 7))
     \<noteq> double_div (Some 2) (Some (g_inputParam (globals scenario_memory) REYNOLDS))
   \<and> Flux_double (Some 1)
        (nu_dye_double (globals (set_inputParam (set_inputParam scenario_memory LENGTH 3) U_FLOW 7)))
        (Some 100)
     = Some (5764607523034234 / 2 ^ 58)
   \<and> Flux_double (Some 1) (nu_dye_double (globals scenario_memory)) (Some 100)
     = Some (5764607523034235 / 2 ^ 58)
   \<and> Flux_double (Some 1)
        (nu_dye_double (globals (set_inputParam (set_inputParam scenario_memory LENGTH 3) U_FLOW 7)))
        (Some 100)
     \<noteq> Flux_double (Some 1) (nu_dye_double (globals scenario_memory)) (Some 100)"
  by (simp add: nu_dye_double_def Flux_double_def double_mul_def double_div_def
      double_round_def binade_def round_ties_even_def Let_def
      set_inputParam_def scenario_memory_def scenario_globals_def
      UNIT_LENGTH_def UNIT_VELOCITY_def LENGTH_def U_FLOW_def REYNOLDS_def)

text \<open>
  Claim C10, amended. In exact arithmetic, that is with the double operations of the source
  taken without their rounding, the unit length being the parameter \<^verbatim>\<open>LENGTH\<close> and the unit
  velocity the parameter \<^verbatim>\<open>U_FLOW\<close>, the diffusivity is \<open>2 / REYNOLDS\<close> whenever the two are
  not zero, and the flux array after the call is the same for any other nonzero values
  of the two. In double arithmetic the two factors need not cancel to the last bit.
\<close>

theorem length_and_velocity_cancel:
  assumes "g_inputParam (globals m) LENGTH \<noteq> 0" and "g_inputParam (globals m) U_FLOW \<noteq> 0"
    and "L \<noteq> 0" and "U \<noteq> 0"
  shows "nu_dye (globals m) = 2 / g_inputParam (globals m) REYNOLDS
       \<and> tracer_flux (RHS_TRACER_Flux fresh
            (set_inputParam (set_inputParam m LENGTH L) U_FLOW U) beg end')
           = tracer_flux (RHS_TRACER_Flux fresh m beg end')"
proof -
  have nu: "nu_dye g = 2 / g_inputParam g REYNOLDS"
    if "g_inputParam g LENGTH \<noteq> 0" "g_inputParam g U_FLOW \<noteq> 0" for g
    using that by (simp add: nu_dye_def Let_def UNIT_LENGTH_def UNIT_VELOCITY_def)
  have nu2: "nu_dye (globals (set_inputParam (set_inputParam m LENGTH L) U_FLOW U))
      = 2 / g_inputParam (globals m) REYNOLDS"
    using assms(3,4)
    by (subst nu) (simp_all add: set_inputParam_def REYNOLDS_def LENGTH_def U_FLOW_def)
  have grad: "GetTracerGradient (globals (set_inputParam (set_inputParam m LENGTH L) U_FLOW U))
      = GetTracerGradient (globals m)"
    by (rule GetTracerGradient_globals) (simp_all add: set_inputParam_def)
  have rest: "g_dir (globals (set_inputParam (set_inputParam m LENGTH L) U_FLOW U))
        = g_dir (globals m)"
    "grid (set_inputParam (set_inputParam m LENGTH L) U_FLOW U) = grid m"
    "sweep (set_inputParam (set_inputParam m LENGTH L) U_FLOW U) = sweep m"
    "TracerField (set_inputParam (set_inputParam m LENGTH L) U_FLOW U) = TracerField m"
    "tracer_flux (set_inputParam (set_inputParam m LENGTH L) U_FLOW U) = tracer_flux m"
    "gradTRC_buffer fresh (set_inputParam (set_inputParam m LENGTH L) U_FLOW U)
        = gradTRC_buffer fresh m"
    by (simp_all add: set_inputParam_def gradTRC_buffer_def)
  show ?thesis
    using assms(1,2)
    by (simp add: RHS_TRACER_Flux_tracer_flux nu nu2 grad rest cong: if_cong)
qed

theorem length_and_velocity_cancel_witness:
  "g_inputParam (globals scenario_memory) LENGTH \<noteq> 0
   \<and> g_inputParam (globals scenario_memory) U_FLOW \<noteq> 0
   \<and> (3::real) \<noteq> 0 \<and> (7::real) \<noteq> 0
   \<and> nu_dye (globals scenario_memory) = 1 / 5000
   \<and> tracer_flux (RHS_TRACER_Flux zero_block
        (set_inputParam (set_inputParam scenario_memory LENGTH 3) U_FLOW 7) 0 0)
       = tracer_flux (RHS_TRACER_Flux zero_block scenario_memory 0 0)
   \<and> g_inputParam (globals (set_inputParam (set_inputParam scenario_memory LENGTH 3) U_FLOW 7))
        LENGTH = 3"
  using length_and_velocity_cancel [of scenario_memory 3 7 zero_block 0 0]
  by (simp add: scenario_memory_def scenario_globals_def set_inputParam_def REYNOLDS_def
      LENGTH_def U_FLOW_def)

end
